theory Spec2Isabelle
  imports Complex_Main "HOL-Library.Word" "HOL-Library.Multiset"
begin

section \<open>JavaScript values\<close>

text \<open>
  A JavaScript string is a sequence of UTF-16 code units; \<open>.length\<close> counts code units.
  \<open>ascii\<close> embeds the ASCII literals of the source.
\<close>

type_synonym jsstring = "16 word list"

definition ascii :: "string \<Rightarrow> jsstring" where
  "ascii s = map of_char s"

text \<open>
  A number is \<open>NaN\<close>, an infinity (\<open>JSON.parse\<close> gives one for a literal out of range,
  such as \<open>1e400\<close>) or finite; a finite number is the real it denotes, and \<open>-0\<close> is
  \<open>0\<close>. The numbers other than \<open>NaN\<close> are ordered as the extended reals.
\<close>

datatype extended = MinusInfinity | Finite real | PlusInfinity

datatype jsnum = NaN | Num extended

instantiation extended :: linorder
begin

fun less_eq_extended :: "extended \<Rightarrow> extended \<Rightarrow> bool" where
  "less_eq_extended MinusInfinity b = True"
| "less_eq_extended (Finite x) MinusInfinity = False"
| "less_eq_extended (Finite x) (Finite y) = (x \<le> y)"
| "less_eq_extended (Finite x) PlusInfinity = True"
| "less_eq_extended PlusInfinity PlusInfinity = True"
| "less_eq_extended PlusInfinity b = False"

definition less_extended :: "extended \<Rightarrow> extended \<Rightarrow> bool" where
  "less_extended a b \<longleftrightarrow> a \<le> b \<and> \<not> b \<le> a"

instance
proof
  fix a b c :: extended
  show "a < b \<longleftrightarrow> a \<le> b \<and> \<not> b \<le> a"
    by (simp add: less_extended_def)
  show "a \<le> a"
    by (cases a) simp_all
  show "a \<le> b \<Longrightarrow> b \<le> c \<Longrightarrow> a \<le> c"
    by (cases a; cases b; cases c) simp_all
  show "a \<le> b \<Longrightarrow> b \<le> a \<Longrightarrow> a = b"
    by (cases a; cases b) simp_all
  show "a \<le> b \<or> b \<le> a"
    by (cases a; cases b) auto
qed

end

text \<open>
  The values that \<open>JSON.parse\<close> can build, and \<open>undefined\<close> (what reading a missing
  property gives). An object is the list of its own properties.
\<close>

datatype jsval =
    JUndefined
  | JNull
  | JBool bool
  | JNum jsnum
  | JStr jsstring
  | JArr "jsval list"
  | JObj "(jsstring \<times> jsval) list"

abbreviation JFin :: "real \<Rightarrow> jsval" where
  "JFin x \<equiv> JNum (Num (Finite x))"

text \<open>ToBoolean, as \<open>&&\<close>, \<open>||\<close>, \<open>!\<close> and \<open>if\<close> apply it.\<close>

fun truthy :: "jsval \<Rightarrow> bool" where
  "truthy JUndefined = False"
| "truthy JNull = False"
| "truthy (JBool b) = b"
| "truthy (JNum n) = (n \<noteq> NaN \<and> n \<noteq> Num (Finite 0))"
| "truthy (JStr s) = (s \<noteq> [])"
| "truthy (JArr xs) = True"
| "truthy (JObj fs) = True"

text \<open>\<open>typeof v === 'string'\<close>.\<close>

fun is_string :: "jsval \<Rightarrow> bool" where
  "is_string (JStr s) = True"
| "is_string v = False"

text \<open>\<open>typeof v === 'boolean'\<close> and \<open>typeof v === 'number'\<close>.\<close>

fun is_boolean :: "jsval \<Rightarrow> bool" where
  "is_boolean (JBool b) = True"
| "is_boolean v = False"

fun is_number :: "jsval \<Rightarrow> bool" where
  "is_number (JNum x) = True"
| "is_number v = False"

text \<open>
  \<open>t.k\<close> for a truthy \<open>t\<close> and a key that no prototype defines: an own property of an
  object, \<open>undefined\<close> on every other value. (On \<open>null\<close> and \<open>undefined\<close> the read
  throws; the source reads only behind \<open>t &&\<close>.)
\<close>

fun get_prop :: "jsval \<Rightarrow> jsstring \<Rightarrow> jsval" where
  "get_prop (JObj fs) k = (case map_of fs k of Some v \<Rightarrow> v | None \<Rightarrow> JUndefined)"
| "get_prop v k = JUndefined"

text \<open>
  \<open>String.prototype.trim\<close>: strips WhiteSpace and LineTerminator code units (ECMAScript
  12.2 and 12.3) from both ends.
\<close>

definition is_ws :: "16 word \<Rightarrow> bool" where
  "is_ws c \<longleftrightarrow>
     c = 0x0009 \<or> c = 0x000A \<or> c = 0x000B \<or> c = 0x000C \<or> c = 0x000D \<or> c = 0x0020 \<or>
     c = 0x00A0 \<or> c = 0x1680 \<or> (0x2000 \<le> c \<and> c \<le> 0x200A) \<or> c = 0x2028 \<or> c = 0x2029 \<or>
     c = 0x202F \<or> c = 0x205F \<or> c = 0x3000 \<or> c = 0xFEFF"

definition trim :: "jsstring \<Rightarrow> jsstring" where
  "trim s = rev (dropWhile is_ws (rev (dropWhile is_ws s)))"

section \<open>Constants and utilities\<close>

definition STORAGE_KEY :: jsstring where
  "STORAGE_KEY = ascii ''todos''"

definition FILTER_KEY :: jsstring where
  "FILTER_KEY = ascii ''currentFilter''"

text \<open>\<open>typeof title === 'string' ? title.trim() : ''\<close>\<close>

fun trimTitle :: "jsval \<Rightarrow> jsstring" where
  "trimTitle (JStr s) = trim s"
| "trimTitle v = []"

definition key_id :: jsstring where
  "key_id = ascii ''id''"

definition key_title :: jsstring where
  "key_title = ascii ''title''"

definition key_completed :: jsstring where
  "key_completed = ascii ''completed''"

definition key_createdAt :: jsstring where
  "key_createdAt = ascii ''createdAt''"

definition key_toString :: jsstring where
  "key_toString = ascii ''toString''"

definition filter_all :: jsstring where
  "filter_all = ascii ''all''"

definition filter_active :: jsstring where
  "filter_active = ascii ''active''"

definition filter_completed :: jsstring where
  "filter_completed = ascii ''completed''"

text \<open>\<open>['all', 'active', 'completed']\<close>\<close>

definition valid_filters :: "jsstring list" where
  "valid_filters = [filter_all, filter_active, filter_completed]"

section \<open>Model state\<close>

text \<open>
  An element of \<open>state.todos\<close>. Every element the model stores has passed the check of
  \<open>load\<close> or was built by \<open>addTodo\<close>, so it is an object whose \<open>id\<close> and \<open>title\<close>
  are strings. Nothing checks \<open>completed\<close> and \<open>createdAt\<close>: they are any value
  (\<open>undefined\<close> when the property is missing). \<open>others\<close> holds the remaining own
  properties, which the object spread copies.
\<close>

record todo =
  todo_id :: jsstring
  title :: jsstring
  completed :: jsval
  createdAt :: jsval
  others :: "(jsstring \<times> jsval) list"

record app_state =
  todos :: "todo list"
  currentFilter :: jsstring

text \<open>
  What a run can observe: \<open>model.state\<close>, the content of \<open>localStorage\<close>, and the
  calls of \<open>localStorage.setItem\<close> made so far (oldest first, failed ones included).
\<close>

record world =
  state :: app_state
  localStorage :: "jsstring \<rightharpoonup> jsstring"
  setItem_calls :: "(jsstring \<times> jsstring) list"

text \<open>
  The built-ins the model calls, as parameters:
  \<open>JSON_parse\<close> (\<open>None\<close> when it throws SyntaxError), \<open>JSON_stringify\<close> on a todo
  array, \<open>setItem_throws\<close> (whether \<open>localStorage.setItem\<close> throws for this content,
  key and value), \<open>text_to_number\<close> (the number ToNumber reads from a string, or from
  the text of an array, when that conversion does not throw), and \<open>implementation_order\<close>
  (the positions in which the engine's sort leaves the elements when ECMAScript does not
  fix the order).
\<close>

record platform =
  JSON_parse :: "jsstring \<Rightarrow> jsval option"
  JSON_stringify :: "todo list \<Rightarrow> jsstring"
  setItem_throws :: "(jsstring \<rightharpoonup> jsstring) \<Rightarrow> jsstring \<Rightarrow> jsstring \<Rightarrow> bool"
  text_to_number :: "jsval \<Rightarrow> jsnum"
  implementation_order :: "todo list \<Rightarrow> nat list"

definition initial_state :: app_state where
  "initial_state = \<lparr>todos = [], currentFilter = filter_all\<rparr>"

section \<open>Persistence\<close>

datatype completion = Normal | Abrupt

definition setItem :: "platform \<Rightarrow> jsstring \<Rightarrow> jsstring \<Rightarrow> world \<Rightarrow> completion \<times> world" where
  "setItem P k v w =
     (let w' = w\<lparr>setItem_calls := setItem_calls w @ [(k, v)]\<rparr> in
      if setItem_throws P (localStorage w) k v then (Abrupt, w')
      else (Normal, w'\<lparr>localStorage := (localStorage w)(k \<mapsto> v)\<rparr>))"

text \<open>
  \<open>save\<close>: the assignment to \<open>this.state\<close> comes first; the two writes are inside
  \<open>try\<close>, and the empty \<open>catch\<close> swallows what they throw.
\<close>

definition save :: "platform \<Rightarrow> app_state \<Rightarrow> world \<Rightarrow> world" where
  "save P newState w =
     (let w0 = w\<lparr>state := newState\<rparr> in
      case setItem P STORAGE_KEY (JSON_stringify P (todos newState)) w0 of
        (Abrupt, w1) \<Rightarrow> w1
      | (Normal, w1) \<Rightarrow> snd (setItem P FILTER_KEY (currentFilter newState) w1))"

section \<open>Loading\<close>

text \<open>The callback of \<open>filter\<close> in \<open>load\<close>.\<close>

definition is_record :: "jsval \<Rightarrow> bool" where
  "is_record t \<longleftrightarrow> truthy t \<and> is_string (get_prop t key_id) \<and> is_string (get_prop t key_title)"

fun string_of :: "jsval \<Rightarrow> jsstring" where
  "string_of (JStr s) = s"
| "string_of v = []"

fun own_properties :: "jsval \<Rightarrow> (jsstring \<times> jsval) list" where
  "own_properties (JObj fs) = fs"
| "own_properties v = []"

text \<open>A parsed object that passed \<open>is_record\<close>, read as a todo.\<close>

definition todo_of :: "jsval \<Rightarrow> todo" where
  "todo_of t =
     \<lparr>todo_id = string_of (get_prop t key_id),
      title = string_of (get_prop t key_title),
      completed = get_prop t key_completed,
      createdAt = get_prop t key_createdAt,
      others = filter (\<lambda>(k, v). k \<notin> set [key_id, key_title, key_completed, key_createdAt])
                 (own_properties t)\<rparr>"

text \<open>\<open>v || 0\<close>\<close>

definition or_zero :: "jsval \<Rightarrow> jsval" where
  "or_zero v = (if truthy v then v else JFin 0)"

text \<open>
  Whether converting a value to a primitive throws TypeError. A parsed object has no
  callable property of its own: ToPrimitive finds \<open>Object.prototype.toString\<close>, unless
  the object has an own \<open>toString\<close> property, and then no method is left. An array is
  joined, which converts each element to a string.
\<close>

fun raises :: "jsval \<Rightarrow> bool" where
  "raises (JObj fs) = (key_toString \<in> set (map fst fs))"
| "raises (JArr xs) = (\<exists>x\<in>set xs. raises x)"
| "raises v = False"

text \<open>
  ToNumber, as the operator \<open>-\<close> applies it to an operand; \<open>None\<close> is the thrown
  TypeError. The text of an object, \<open>[object Object]\<close>, is not a number.
\<close>

fun to_number :: "platform \<Rightarrow> jsval \<Rightarrow> jsnum option" where
  "to_number P JUndefined = Some NaN"
| "to_number P JNull = Some (Num (Finite 0))"
| "to_number P (JBool b) = Some (Num (Finite (if b then 1 else 0)))"
| "to_number P (JNum n) = Some n"
| "to_number P (JStr s) = Some (text_to_number P (JStr s))"
| "to_number P (JArr xs) = (if raises (JArr xs) then None else Some (text_to_number P (JArr xs)))"
| "to_number P (JObj fs) = (if raises (JObj fs) then None else Some NaN)"

text \<open>
  The difference of two numbers. Only its sign is used: where the floating-point
  subtraction of two finite numbers rounds or overflows, it keeps the sign of the exact
  difference, which the model returns.
\<close>

fun minus_extended :: "extended \<Rightarrow> extended \<Rightarrow> jsnum" where
  "minus_extended (Finite x) (Finite y) = Num (Finite (x - y))"
| "minus_extended (Finite x) PlusInfinity = Num MinusInfinity"
| "minus_extended (Finite x) MinusInfinity = Num PlusInfinity"
| "minus_extended PlusInfinity PlusInfinity = NaN"
| "minus_extended PlusInfinity b = Num PlusInfinity"
| "minus_extended MinusInfinity MinusInfinity = NaN"
| "minus_extended MinusInfinity b = Num MinusInfinity"

fun minus_num :: "jsnum \<Rightarrow> jsnum \<Rightarrow> jsnum" where
  "minus_num (Num a) (Num b) = minus_extended a b"
| "minus_num a b = NaN"

definition js_minus :: "platform \<Rightarrow> jsval \<Rightarrow> jsval \<Rightarrow> jsnum option" where
  "js_minus P x y =
     (case to_number P x of
        None \<Rightarrow> None
      | Some a \<Rightarrow> (case to_number P y of None \<Rightarrow> None | Some b \<Rightarrow> Some (minus_num a b)))"

text \<open>\<open>(a, b) => (b.createdAt || 0) - (a.createdAt || 0)\<close>\<close>

definition by_createdAt :: "platform \<Rightarrow> todo \<Rightarrow> todo \<Rightarrow> jsnum option" where
  "by_createdAt P a b = js_minus P (or_zero (createdAt b)) (or_zero (createdAt a))"

text \<open>
  A \<open>createdAt\<close> that the comparator reads as a number other than \<open>NaN\<close>: a number, a
  falsy value that \<open>|| 0\<close> replaces, \<open>true\<close>, or a text that ToNumber can read.
  \<open>createdAt_number\<close> is the operand the comparator then subtracts, and \<open>opposite\<close> is
  the negation, for sorting in descending order.
\<close>

definition numeric_createdAt :: "platform \<Rightarrow> jsval \<Rightarrow> bool" where
  "numeric_createdAt P v =
     (case to_number P (or_zero v) of Some (Num e) \<Rightarrow> True | _ \<Rightarrow> False)"

definition createdAt_number :: "platform \<Rightarrow> todo \<Rightarrow> extended" where
  "createdAt_number P t =
     (case to_number P (or_zero (createdAt t)) of Some (Num e) \<Rightarrow> e | _ \<Rightarrow> Finite 0)"

fun opposite :: "extended \<Rightarrow> extended" where
  "opposite MinusInfinity = PlusInfinity"
| "opposite (Finite x) = Finite (- x)"
| "opposite PlusInfinity = MinusInfinity"

text \<open>
  \<open>Array.prototype.sort\<close> with a comparator, after ECMAScript (23.1.3.30). SortCompare
  reads the sign of what the comparator returns, a \<open>NaN\<close> as \<open>+0\<close>.
\<close>

fun sign_of :: "jsnum \<Rightarrow> int" where
  "sign_of NaN = 0"
| "sign_of (Num MinusInfinity) = - 1"
| "sign_of (Num (Finite x)) = (if x < 0 then - 1 else if 0 < x then 1 else 0)"
| "sign_of (Num PlusInfinity) = 1"

definition sort_compare :: "('a \<Rightarrow> 'a \<Rightarrow> jsnum option) \<Rightarrow> 'a \<Rightarrow> 'a \<Rightarrow> int" where
  "sort_compare cmp x y = (case cmp x y of None \<Rightarrow> 0 | Some v \<Rightarrow> sign_of v)"

text \<open>A consistent comparator for the elements of a list, in the words of ECMAScript.\<close>

definition consistent :: "('a \<Rightarrow> 'a \<Rightarrow> int) \<Rightarrow> 'a list \<Rightarrow> bool" where
  "consistent sc xs \<longleftrightarrow>
     list_all (\<lambda>a. list_all (\<lambda>b. list_all (\<lambda>c.
         sc a a = 0
       \<and> (sc a b = 0 \<longrightarrow> sc b a = 0)
       \<and> (sc a b = 0 \<and> sc b c = 0 \<longrightarrow> sc a c = 0)
       \<and> (sc a b < 0 \<longrightarrow> sc b a > 0)
       \<and> (sc a b < 0 \<and> sc b c < 0 \<longrightarrow> sc a c < 0)
       \<and> (sc a b > 0 \<longrightarrow> sc b a < 0)
       \<and> (sc a b > 0 \<and> sc b c > 0 \<longrightarrow> sc a c > 0)) xs) xs) xs"

text \<open>
  The stable sort, as an insertion sort: \<open>x\<close> goes behind \<open>y\<close> exactly when
  \<open>sc x y > 0\<close>. For a consistent comparator every stable sort gives this list.
\<close>

fun insert_sorted :: "('a \<Rightarrow> 'a \<Rightarrow> int) \<Rightarrow> 'a \<Rightarrow> 'a list \<Rightarrow> 'a list" where
  "insert_sorted sc x [] = [x]"
| "insert_sorted sc x (y # ys) =
     (if sc x y > 0 then y # insert_sorted sc x ys else x # y # ys)"

definition stable_sort :: "('a \<Rightarrow> 'a \<Rightarrow> int) \<Rightarrow> 'a list \<Rightarrow> 'a list" where
  "stable_sort sc xs = foldr (insert_sorted sc) xs []"

text \<open>The elements in the given positions; any list that is not a permutation of the
  positions leaves the elements where they are.\<close>

definition permute :: "nat list \<Rightarrow> 'a list \<Rightarrow> 'a list" where
  "permute ps xs = (if sort ps = [0..<length xs] then map ((!) xs) ps else xs)"

text \<open>
  The sort: with fewer than two elements the comparator is not called. Otherwise every
  element takes part in a comparison, and the comparator of \<open>load\<close> throws in every
  comparison with an element whose \<open>createdAt\<close> cannot be converted: the sort throws
  when a comparison among the elements does. A consistent comparator gives the stable
  sorted order; for any other, ECMAScript leaves the order to the implementation.
\<close>

definition array_sort ::
    "('a list \<Rightarrow> nat list) \<Rightarrow> ('a \<Rightarrow> 'a \<Rightarrow> jsnum option) \<Rightarrow> 'a list \<Rightarrow> 'a list option" where
  "array_sort order cmp xs =
     (if length xs < 2 then Some xs
      else if list_ex (\<lambda>x. list_ex (\<lambda>y. cmp x y = None) xs) xs then None
      else if consistent (sort_compare cmp) xs then Some (stable_sort (sort_compare cmp) xs)
      else Some (permute (order xs) xs))"

text \<open>
  The \<open>try\<close> block of \<open>load\<close>: the state it leaves, or \<open>None\<close> when \<open>JSON.parse\<close>
  or the comparator throws. \<open>if (todosJson)\<close> skips a missing value (\<open>null\<close>) and the
  empty string; \<open>filter && ...\<close> does the same for the stored filter.
\<close>

definition load_try :: "platform \<Rightarrow> world \<Rightarrow> app_state option" where
  "load_try P w =
     (let todosJson = localStorage w STORAGE_KEY;
          filter_value = localStorage w FILTER_KEY;
          after_todos =
            (case todosJson of
               None \<Rightarrow> Some (state w)
             | Some j \<Rightarrow>
                 if j = [] then Some (state w)
                 else (case JSON_parse P j of
                         None \<Rightarrow> None
                       | Some (JArr xs) \<Rightarrow>
                           map_option (\<lambda>ys. (state w)\<lparr>todos := ys\<rparr>)
                             (array_sort (implementation_order P) (by_createdAt P)
                                (map todo_of (filter is_record xs)))
                       | Some v \<Rightarrow> Some (state w)))
      in case after_todos of
           None \<Rightarrow> None
         | Some st \<Rightarrow>
             (case filter_value of
                None \<Rightarrow> Some st
              | Some f \<Rightarrow>
                  if f \<noteq> [] \<and> f \<in> set valid_filters then Some (st\<lparr>currentFilter := f\<rparr>)
                  else Some st))"

text \<open>\<open>load\<close>: the \<open>catch\<close> block resets both fields.\<close>

definition load :: "platform \<Rightarrow> world \<Rightarrow> world" where
  "load P w =
     (case load_try P w of
        None \<Rightarrow> w\<lparr>state := \<lparr>todos = [], currentFilter = filter_all\<rparr>\<rparr>
      | Some st \<Rightarrow> w\<lparr>state := st\<rparr>)"

section \<open>Mutations\<close>

text \<open>
  \<open>findIndex\<close>: the position of the first element that satisfies the callback, \<open>-1\<close> when
  there is none.
\<close>

fun findIndex :: "('a \<Rightarrow> bool) \<Rightarrow> 'a list \<Rightarrow> int" where
  "findIndex p [] = - 1"
| "findIndex p (x # xs) =
     (if p x then 0 else (let i = findIndex p xs in if i = - 1 then - 1 else i + 1))"

text \<open>\<open>t.id === id\<close>: \<open>t.id\<close> is a string, so only the same string is strictly equal.\<close>

definition id_is :: "jsval \<Rightarrow> todo \<Rightarrow> bool" where
  "id_is v t \<longleftrightarrow> v = JStr (todo_id t)"

text \<open>
  Each mutation returns what the source returns (\<open>None\<close> for \<open>null\<close>) and the world it
  leaves. \<open>addTodo\<close> also takes the results of \<open>generateId()\<close> and \<open>Date.now()\<close>.
\<close>

definition addTodo :: "platform \<Rightarrow> jsstring \<Rightarrow> real \<Rightarrow> jsval \<Rightarrow> world \<Rightarrow> app_state option \<times> world" where
  "addTodo P generatedId now ttl w =
     (let trimmed = trimTitle ttl in
      if trimmed = [] \<or> length trimmed > 500 then (None, w)
      else
        let todo = \<lparr>todo_id = generatedId, title = trimmed, completed = JBool False,
                     createdAt = JFin now, others = []\<rparr>;
            newState = (state w)\<lparr>todos := todo # todos (state w)\<rparr>
        in (Some newState, save P newState w))"

definition toggleTodo :: "platform \<Rightarrow> jsval \<Rightarrow> world \<Rightarrow> app_state option \<times> world" where
  "toggleTodo P idv w =
     (let index = findIndex (id_is idv) (todos (state w)) in
      if index = - 1 then (None, w)
      else
        let newTodos = map (\<lambda>t. if id_is idv t then t\<lparr>completed := JBool (\<not> truthy (completed t))\<rparr> else t)
                         (todos (state w));
            newState = (state w)\<lparr>todos := newTodos\<rparr>
        in (Some newState, save P newState w))"

definition deleteTodo :: "platform \<Rightarrow> jsval \<Rightarrow> world \<Rightarrow> app_state option \<times> world" where
  "deleteTodo P idv w =
     (let index = findIndex (id_is idv) (todos (state w)) in
      if index = - 1 then (None, w)
      else
        let newTodos = filter (\<lambda>t. \<not> id_is idv t) (todos (state w));
            newState = (state w)\<lparr>todos := newTodos\<rparr>
        in (Some newState, save P newState w))"

definition editTodo :: "platform \<Rightarrow> jsval \<Rightarrow> jsval \<Rightarrow> world \<Rightarrow> app_state option \<times> world" where
  "editTodo P idv newTitle w =
     (let trimmed = trimTitle newTitle in
      if trimmed = [] \<or> length trimmed > 500 then (None, w)
      else
        let index = findIndex (id_is idv) (todos (state w)) in
        if index = - 1 then (None, w)
        else
          let newTodos = map (\<lambda>t. if id_is idv t then t\<lparr>title := trimmed\<rparr> else t) (todos (state w));
              newState = (state w)\<lparr>todos := newTodos\<rparr>
          in (Some newState, save P newState w))"

text \<open>\<open>includes\<close> compares with SameValueZero: only a string equals a string.\<close>

definition setFilter :: "platform \<Rightarrow> jsval \<Rightarrow> world \<Rightarrow> app_state option \<times> world" where
  "setFilter P filterType w =
     (if \<not> (is_string filterType \<and> string_of filterType \<in> set valid_filters) then (None, w)
      else
        let newState = (state w)\<lparr>currentFilter := string_of filterType\<rparr>
        in (Some newState, save P newState w))"

definition clearCompleted :: "platform \<Rightarrow> world \<Rightarrow> app_state option \<times> world" where
  "clearCompleted P w =
     (let newTodos = filter (\<lambda>t. \<not> truthy (completed t)) (todos (state w));
          newState = (state w)\<lparr>todos := newTodos\<rparr>
      in (Some newState, save P newState w))"

section \<open>Queries\<close>

definition getActiveCount :: "app_state \<Rightarrow> nat" where
  "getActiveCount s = length (filter (\<lambda>t. \<not> truthy (completed t)) (todos s))"

definition getCompletedCount :: "app_state \<Rightarrow> nat" where
  "getCompletedCount s = length (filter (\<lambda>t. truthy (completed t)) (todos s))"

definition getFilteredTodos :: "app_state \<Rightarrow> todo list" where
  "getFilteredTodos s =
     (if currentFilter s = filter_active then filter (\<lambda>t. \<not> truthy (completed t)) (todos s)
      else if currentFilter s = filter_completed then filter (\<lambda>t. truthy (completed t)) (todos s)
      else todos s)"

section \<open>Runs of the Store\<close>

text \<open>
  The mutating operations with their arguments; \<open>AddTodo\<close> carries what
  \<open>generateId()\<close> and \<open>Date.now()\<close> return if they are reached.
\<close>

datatype operation =
    AddTodo jsval jsstring real
  | ToggleTodo jsval
  | DeleteTodo jsval
  | EditTodo jsval jsval
  | SetFilter jsval
  | ClearCompleted

fun perform :: "platform \<Rightarrow> operation \<Rightarrow> world \<Rightarrow> app_state option \<times> world" where
  "perform P (AddTodo ttl generatedId now) w = addTodo P generatedId now ttl w"
| "perform P (ToggleTodo idv) w = toggleTodo P idv w"
| "perform P (DeleteTodo idv) w = deleteTodo P idv w"
| "perform P (EditTodo idv newTitle) w = editTodo P idv newTitle w"
| "perform P (SetFilter filterType) w = setFilter P filterType w"
| "perform P ClearCompleted w = clearCompleted P w"




definition fresh_world :: "(jsstring \<rightharpoonup> jsstring) \<Rightarrow> world" where
  "fresh_world stored = \<lparr>state = initial_state, localStorage = stored, setItem_calls = []\<rparr>"

section \<open>The title invariant\<close>





section \<open>Environments for the examples\<close>

text \<open>
  A platform whose storage accepts every write and whose parser rejects every text; the
  examples override the field they are about. \<open>failing_platform\<close> has a storage that
  refuses every write.
\<close>

definition example_platform :: platform where
  "example_platform =
     \<lparr>JSON_parse = (\<lambda>s. None), JSON_stringify = (\<lambda>ts. []),
      setItem_throws = (\<lambda>d k v. False), text_to_number = (\<lambda>v. NaN),
      implementation_order = (\<lambda>ts. [0..<length ts])\<rparr>"

definition failing_platform :: platform where
  "failing_platform = example_platform\<lparr>setItem_throws := (\<lambda>d k v. True)\<rparr>"

definition example_todo :: todo where
  "example_todo = \<lparr>todo_id = ascii ''a'', title = ascii ''x'', completed = JBool False,
                    createdAt = JFin 1000, others = []\<rparr>"

definition example_world :: world where
  "example_world = \<lparr>state = \<lparr>todos = [example_todo], currentFilter = filter_all\<rparr>,
                     localStorage = Map.empty, setItem_calls = []\<rparr>"



text \<open>A stored record with no \<open>completed\<close> and no \<open>createdAt\<close>, and the world \<open>load\<close> makes of it.\<close>

definition bare_text :: jsstring where
  "bare_text = ascii ''[{\"id\":\"a\",\"title\":\"x\"}]''"

definition bare_json :: jsval where
  "bare_json = JArr [JObj [(key_id, JStr (ascii ''a'')), (key_title, JStr (ascii ''x''))]]"

definition bare_platform :: platform where
  "bare_platform = example_platform\<lparr>JSON_parse := map_of [(bare_text, bare_json)]\<rparr>"

definition bare_world :: world where
  "bare_world = load bare_platform (fresh_world (Map.empty(STORAGE_KEY \<mapsto> bare_text)))"

text \<open>The stored array of the load tests, with two entries that are not records.\<close>

definition seeded_text :: jsstring where
  "seeded_text = ascii ''[{\"id\":\"a\",\"title\":\"Old\",\"completed\":false,\"createdAt\":1000},{\"id\":123,\"title\":\"Bad id\"},{\"id\":\"b\",\"title\":\"New\",\"completed\":false,\"createdAt\":2000},null,{\"id\":\"c\",\"title\":\"Mid\",\"completed\":false,\"createdAt\":1500}]''"

definition seeded_records :: "jsval list" where
  "seeded_records =
     [JObj [(key_id, JStr (ascii ''a'')), (key_title, JStr (ascii ''Old'')),
            (key_completed, JBool False), (key_createdAt, JFin 1000)],
      JObj [(key_id, JFin 123), (key_title, JStr (ascii ''Bad id''))],
      JObj [(key_id, JStr (ascii ''b'')), (key_title, JStr (ascii ''New'')),
            (key_completed, JBool False), (key_createdAt, JFin 2000)],
      JNull,
      JObj [(key_id, JStr (ascii ''c'')), (key_title, JStr (ascii ''Mid'')),
            (key_completed, JBool False), (key_createdAt, JFin 1500)]]"

definition seeded_platform :: platform where
  "seeded_platform = example_platform\<lparr>JSON_parse := map_of [(seeded_text, JArr seeded_records)]\<rparr>"

definition seeded_world :: world where
  "seeded_world = fresh_world (Map.empty(STORAGE_KEY \<mapsto> seeded_text, FILTER_KEY \<mapsto> filter_completed))"

text \<open>A stored array of two records, the first with an object as \<open>createdAt\<close>.\<close>

definition object_date_text :: jsstring where
  "object_date_text = ascii ''[{\"id\":\"a\",\"title\":\"x\",\"createdAt\":{\"toString\":0}},{\"id\":\"b\",\"title\":\"y\",\"createdAt\":1}]''"

definition object_date_records :: "jsval list" where
  "object_date_records =
     [JObj [(key_id, JStr (ascii ''a'')), (key_title, JStr (ascii ''x'')),
            (key_createdAt, JObj [(key_toString, JFin 0)])],
      JObj [(key_id, JStr (ascii ''b'')), (key_title, JStr (ascii ''y'')),
            (key_createdAt, JFin 1)]]"

definition object_date_platform :: platform where
  "object_date_platform =
     example_platform\<lparr>JSON_parse := map_of [(object_date_text, JArr object_date_records)]\<rparr>"

text \<open>
  A stored array whose records have a date string and \<open>true\<close> as \<open>createdAt\<close>, under a
  platform that reads no number from a date string.
\<close>

definition dated_text :: jsstring where
  "dated_text = ascii ''[{\"id\":\"a\",\"title\":\"x\",\"createdAt\":\"2024-01-01\"},{\"id\":\"b\",\"title\":\"y\",\"createdAt\":true}]''"

definition dated_records :: "jsval list" where
  "dated_records =
     [JObj [(key_id, JStr (ascii ''a'')), (key_title, JStr (ascii ''x'')),
            (key_createdAt, JStr (ascii ''2024-01-01''))],
      JObj [(key_id, JStr (ascii ''b'')), (key_title, JStr (ascii ''y'')),
            (key_createdAt, JBool True)]]"

definition dated_platform :: platform where
  "dated_platform = example_platform\<lparr>JSON_parse := map_of [(dated_text, JArr dated_records)]\<rparr>"

text \<open>A stored array with two records created at \<open>1e400\<close>, which is read as infinity.\<close>

definition infinite_text :: jsstring where
  "infinite_text = ascii ''[{\"id\":\"a\",\"title\":\"x\",\"createdAt\":5},{\"id\":\"b\",\"title\":\"y\",\"createdAt\":1e400},{\"id\":\"c\",\"title\":\"z\",\"createdAt\":1e400}]''"

definition infinite_records :: "jsval list" where
  "infinite_records =
     [JObj [(key_id, JStr (ascii ''a'')), (key_title, JStr (ascii ''x'')),
            (key_createdAt, JFin 5)],
      JObj [(key_id, JStr (ascii ''b'')), (key_title, JStr (ascii ''y'')),
            (key_createdAt, JNum (Num PlusInfinity))],
      JObj [(key_id, JStr (ascii ''c'')), (key_title, JStr (ascii ''z'')),
            (key_createdAt, JNum (Num PlusInfinity))]]"

definition infinite_platform :: platform where
  "infinite_platform =
     example_platform\<lparr>JSON_parse := map_of [(infinite_text, JArr infinite_records)]\<rparr>"

section \<open>Basic facts\<close>

lemma findIndex_ge: "- 1 \<le> findIndex p xs"
  by (induction xs) (auto simp: Let_def)

lemma findIndex_none: "findIndex p xs = - 1 \<longleftrightarrow> (\<forall>x\<in>set xs. \<not> p x)"
proof (induction xs)
  case Nil
  show ?case by simp
next
  case (Cons x xs)
  have "findIndex p xs + 1 \<noteq> - 1"
    using findIndex_ge [of p xs] by arith
  with Cons show ?case by (auto simp: Let_def)
qed

lemma state_save: "state (save P newState w) = newState"
  by (simp add: save_def setItem_def Let_def split: prod.splits completion.splits if_splits)

lemma filters_distinct:
  "filter_all \<noteq> filter_active" "filter_all \<noteq> filter_completed"
  "filter_active \<noteq> filter_completed"
  by (simp_all add: filter_all_def filter_active_def filter_completed_def ascii_def)

lemma trim_strips_ends:
  fixes p :: "'a \<Rightarrow> bool"
  assumes "t = rev (dropWhile p (rev (dropWhile p s)))" and "t \<noteq> []"
  shows "\<not> p (hd t)" and "\<not> p (last t)"
proof -
  define u where "u = dropWhile p s"
  define v where "v = dropWhile p (rev u)"
  have t: "t = rev v" by (simp add: assms(1) u_def v_def)
  with assms(2) have v: "v \<noteq> []" by simp
  have "\<not> p (hd v)" using v unfolding v_def by (rule hd_dropWhile)
  then show "\<not> p (last t)" using v by (simp add: t last_rev)
  have "rev u = takeWhile p (rev u) @ v" by (simp add: v_def)
  then have "rev (rev u) = rev (takeWhile p (rev u) @ v)" by simp
  then have u: "u = t @ rev (takeWhile p (rev u))" by (simp add: t)
  have "u \<noteq> []" using u assms(2) by (metis append_is_Nil_conv)
  moreover have "hd u = hd t" using u assms(2) by (metis hd_append2)
  ultimately show "\<not> p (hd t)" using hd_dropWhile [of p s] by (simp add: u_def)
qed

lemma trim_ends: "trim s \<noteq> [] \<Longrightarrow> \<not> is_ws (hd (trim s)) \<and> \<not> is_ws (last (trim s))"
  using trim_strips_ends [of "trim s" is_ws s] by (simp add: trim_def)

lemma trim_fixed: "s = [] \<or> (\<not> is_ws (hd s) \<and> \<not> is_ws (last s)) \<Longrightarrow> trim s = s"
proof (cases "s = []")
  case True
  then show ?thesis by (simp add: trim_def)
next
  case False
  assume "s = [] \<or> (\<not> is_ws (hd s) \<and> \<not> is_ws (last s))"
  with False have h: "\<not> is_ws (hd s)" and l: "\<not> is_ws (last s)" by simp_all
  have 1: "dropWhile is_ws s = s" using h by (simp add: dropWhile_eq_self_iff)
  have "hd (rev s) = last s" using False by (simp add: hd_rev)
  then have 2: "dropWhile is_ws (rev s) = rev s" using l by (simp add: dropWhile_eq_self_iff)
  show ?thesis by (simp add: trim_def 1 2)
qed



lemma trim_replicate: "\<not> is_ws c \<Longrightarrow> trim (replicate n c) = replicate n c"
  by (cases "n = 0") (auto intro!: trim_fixed simp: last_replicate hd_replicate)


lemma trim_split:
  "\<exists>before after. s = before @ trim s @ after \<and> list_all is_ws before \<and> list_all is_ws after"
proof -
  define u where "u = dropWhile is_ws s"
  have "u = rev (takeWhile is_ws (rev u) @ dropWhile is_ws (rev u))"
    by simp
  also have "\<dots> = rev (dropWhile is_ws (rev u)) @ rev (takeWhile is_ws (rev u))"
    by (rule rev_append)
  finally have "u = trim s @ rev (takeWhile is_ws (rev u))"
    by (simp only: trim_def u_def)
  moreover have "s = takeWhile is_ws s @ u"
    by (simp add: u_def)
  ultimately have "s = takeWhile is_ws s @ trim s @ rev (takeWhile is_ws (rev u))"
    by simp
  moreover have "list_all is_ws (takeWhile is_ws s)"
    and "list_all is_ws (rev (takeWhile is_ws (rev u)))"
    by (auto simp: list_all_iff dest: set_takeWhileD)
  ultimately show ?thesis by blast
qed

section \<open>Facts about sorting and loading\<close>

lemma opposite_le: "opposite a \<le> opposite b \<longleftrightarrow> b \<le> a"
  by (cases a; cases b) simp_all

lemma sign_minus_extended:
  "sign_of (minus_extended u v) = (if u < v then - 1 else if v < u then 1 else 0)"
  by (cases u; cases v) (auto simp: less_extended_def)

lemma insert_sorted_insort:
  assumes "\<forall>y\<in>set ys. (sc x y > 0) = (\<not> f x \<le> f y)"
  shows "insert_sorted sc x ys = insort_key f x ys"
  using assms by (induction ys) simp_all

lemma stable_sort_sort_key:
  assumes "\<forall>x\<in>set xs. \<forall>y\<in>set xs. (sc x y > 0) = (\<not> f x \<le> f y)"
  shows "stable_sort sc xs = sort_key f xs"
  using assms
proof (induction xs)
  case Nil
  show ?case by (simp add: stable_sort_def)
next
  case (Cons x xs)
  then have "stable_sort sc xs = sort_key f xs" by simp
  moreover have "\<forall>y\<in>set (sort_key f xs). (sc x y > 0) = (\<not> f x \<le> f y)"
    using Cons.prems by simp
  ultimately show ?case
    by (simp add: stable_sort_def insert_sorted_insort)
qed

lemma mset_insert_sorted: "mset (insert_sorted sc x ys) = add_mset x (mset ys)"
  by (induction ys) simp_all

lemma mset_stable_sort: "mset (stable_sort sc xs) = mset xs"
  by (induction xs) (simp_all add: stable_sort_def mset_insert_sorted)

lemma mset_permute: "mset (permute ps xs) = mset xs"
proof (cases "sort ps = [0..<length xs]")
  case True
  have "mset ps = mset (sort ps)" by simp
  then have "mset ps = mset [0..<length xs]" by (simp only: True)
  then have "mset (map ((!) xs) ps) = mset (map ((!) xs) [0..<length xs])"
    by (metis mset_map)
  then show ?thesis by (simp add: permute_def True map_nth)
next
  case False
  then show ?thesis by (simp add: permute_def)
qed

lemma mset_array_sort: "array_sort order cmp xs = Some ys \<Longrightarrow> mset ys = mset xs"
  by (auto simp: array_sort_def mset_stable_sort mset_permute split: if_splits)

lemma raises_or_zero: "raises (or_zero v) = raises v"
  by (cases v) (simp_all add: or_zero_def)

lemma to_number_None: "to_number P v = None \<longleftrightarrow> raises v"
  by (cases v) simp_all

lemma to_number_or_zero_None: "to_number P (or_zero v) = None \<longleftrightarrow> raises v"
  by (simp add: to_number_None raises_or_zero)

lemma by_createdAt_None:
  "by_createdAt P a b = None \<longleftrightarrow> raises (createdAt a) \<or> raises (createdAt b)"
  unfolding to_number_or_zero_None [of P, symmetric]
  by (auto simp: by_createdAt_def js_minus_def split: option.splits)

lemma numeric_not_raises: "numeric_createdAt P v \<Longrightarrow> \<not> raises v"
  unfolding to_number_or_zero_None [of P, symmetric]
  by (auto simp: numeric_createdAt_def split: option.splits)

lemma numeric_number: "is_number v \<or> \<not> truthy v \<Longrightarrow> numeric_createdAt P v"
  by (cases v) (auto simp: numeric_createdAt_def or_zero_def split: jsnum.splits)

lemma by_createdAt_plain:
  assumes "numeric_createdAt P (createdAt a)" and "numeric_createdAt P (createdAt b)"
  shows "by_createdAt P a b
           = Some (minus_extended (createdAt_number P b) (createdAt_number P a))"
proof -
  from assms obtain x y where "to_number P (or_zero (createdAt a)) = Some (Num x)"
    and "to_number P (or_zero (createdAt b)) = Some (Num y)"
    by (auto simp: numeric_createdAt_def split: option.splits jsnum.splits)
  then show ?thesis
    by (simp add: by_createdAt_def js_minus_def createdAt_number_def)
qed

lemma sort_compare_plain:
  assumes "numeric_createdAt P (createdAt a)" and "numeric_createdAt P (createdAt b)"
  shows "sort_compare (by_createdAt P) a b =
           (if createdAt_number P b < createdAt_number P a then - 1
            else if createdAt_number P a < createdAt_number P b then 1 else 0)"
  by (simp add: sort_compare_def by_createdAt_plain [OF assms] sign_minus_extended)

lemma consistent_plain:
  assumes "\<forall>t\<in>set ts. numeric_createdAt P (createdAt t)"
  shows "consistent (sort_compare (by_createdAt P)) ts"
  unfolding consistent_def list_all_iff
  using assms by (auto simp: sort_compare_plain)

lemma array_sort_plain:
  assumes "\<forall>t\<in>set ts. numeric_createdAt P (createdAt t)"
  shows "array_sort order (by_createdAt P) ts
           = Some (sort_key (\<lambda>t. opposite (createdAt_number P t)) ts)"
proof (cases "length ts < 2")
  case True
  then have "ts = [] \<or> (\<exists>x. ts = [x])"
    by (cases ts) (auto simp: length_Suc_conv)
  then show ?thesis by (auto simp: array_sort_def)
next
  case False
  have 1: "\<not> list_ex (\<lambda>x. list_ex (\<lambda>y. by_createdAt P x y = None) ts) ts"
    using assms by (auto simp: list_ex_iff by_createdAt_None dest: numeric_not_raises)
  have 2: "stable_sort (sort_compare (by_createdAt P)) ts
             = sort_key (\<lambda>t. opposite (createdAt_number P t)) ts"
    by (rule stable_sort_sort_key) (use assms in \<open>auto simp: sort_compare_plain opposite_le\<close>)
  show ?thesis
    using False 1 2 consistent_plain [OF assms] by (simp add: array_sort_def)
qed

lemma array_sort_throws:
  assumes "2 \<le> length ts" and "\<exists>t\<in>set ts. raises (createdAt t)"
  shows "array_sort order (by_createdAt P) ts = None"
proof -
  have "list_ex (\<lambda>x. list_ex (\<lambda>y. by_createdAt P x y = None) ts) ts"
    using assms(2) by (auto simp: list_ex_iff by_createdAt_None)
  with assms(1) show ?thesis by (simp add: array_sort_def)
qed

lemma array_sort_returns:
  assumes "length ts < 2 \<or> (\<forall>t\<in>set ts. \<not> raises (createdAt t))"
  shows "\<exists>ys. array_sort order (by_createdAt P) ts = Some ys \<and> mset ys = mset ts"
proof -
  have "array_sort order (by_createdAt P) ts \<noteq> None"
    using assms by (auto simp: array_sort_def list_ex_iff by_createdAt_None)
  then obtain ys where "array_sort order (by_createdAt P) ts = Some ys" by blast
  with mset_array_sort [OF this] show ?thesis by blast
qed

lemma createdAt_todo_of: "createdAt (todo_of x) = get_prop x key_createdAt"
  by (simp add: todo_of_def)


lemma empty_not_valid_filter: "[] \<notin> set valid_filters"
  by (simp add: valid_filters_def filter_all_def filter_active_def filter_completed_def ascii_def)

lemma load_of_array:
  assumes "localStorage w STORAGE_KEY = Some j" and "j \<noteq> []"
    and "JSON_parse P j = Some (JArr xs)"
  shows "array_sort (implementation_order P) (by_createdAt P) (map todo_of (filter is_record xs)) = None
           \<Longrightarrow> state (load P w) = initial_state"
    and "array_sort (implementation_order P) (by_createdAt P) (map todo_of (filter is_record xs)) = Some ys
           \<Longrightarrow> todos (state (load P w)) = ys
               \<and> currentFilter (state (load P w))
                   = (case localStorage w FILTER_KEY of
                        None \<Rightarrow> currentFilter (state w)
                      | Some f \<Rightarrow> if f \<in> set valid_filters then f else currentFilter (state w))"
  using assms empty_not_valid_filter
  by (auto simp: load_def load_try_def initial_state_def split: option.splits)



lemma seeded_survivors:
  "map todo_of (filter is_record seeded_records) =
     [\<lparr>todo_id = ascii ''a'', title = ascii ''Old'', completed = JBool False,
        createdAt = JFin 1000, others = []\<rparr>,
      \<lparr>todo_id = ascii ''b'', title = ascii ''New'', completed = JBool False,
        createdAt = JFin 2000, others = []\<rparr>,
      \<lparr>todo_id = ascii ''c'', title = ascii ''Mid'', completed = JBool False,
        createdAt = JFin 1500, others = []\<rparr>]"
  by (simp add: seeded_records_def is_record_def todo_of_def key_id_def key_title_def
        key_completed_def key_createdAt_def ascii_def)

lemma seeded_stored:
  "localStorage seeded_world STORAGE_KEY = Some seeded_text"
  "localStorage seeded_world FILTER_KEY = Some filter_completed"
  "seeded_text \<noteq> []"
  "JSON_parse seeded_platform seeded_text = Some (JArr seeded_records)"
  by (simp_all add: seeded_world_def fresh_world_def seeded_platform_def seeded_text_def
        STORAGE_KEY_def FILTER_KEY_def ascii_def)


section \<open>Rejected operations\<close>

text \<open>
  C1. Whenever one of the mutating operations returns \<open>null\<close>, the world after the
  call is the world before it: \<open>model.state\<close> and the storage are the same, and no
  \<open>setItem\<close> call was made.
\<close>

theorem rejection_atomicity:
  "fst (perform P a w) = None \<Longrightarrow> snd (perform P a w) = w"
  by (cases a)
     (auto simp: addTodo_def toggleTodo_def deleteTodo_def editTodo_def setFilter_def
        clearCompleted_def Let_def split: if_splits)

theorem rejection_atomicity_witness:
  "fst (perform example_platform (EditTodo (JStr (ascii ''a'')) (JStr (ascii ''  '')))
          (fresh_world Map.empty)) = None
   \<and> snd (perform example_platform (EditTodo (JStr (ascii ''a'')) (JStr (ascii ''  '')))
            (fresh_world Map.empty))
       = \<lparr>state = initial_state, localStorage = Map.empty, setItem_calls = []\<rparr>"
proof -
  have h: "fst (perform example_platform (EditTodo (JStr (ascii ''a'')) (JStr (ascii ''  '')))
                  (fresh_world Map.empty)) = None"
    by (simp add: editTodo_def trim_def ascii_def is_ws_def)
  from rejection_atomicity [OF h] h show ?thesis
    by (simp add: fresh_world_def)
qed

text \<open>
  C10. A title that is not a string is rejected by \<open>addTodo\<close> and \<open>editTodo\<close>, which
  return \<open>null\<close> and leave the world as it was.
\<close>

theorem non_string_title_rejected:
  "\<not> is_string ttl \<Longrightarrow>
     addTodo P generatedId now ttl w = (None, w) \<and> editTodo P idv ttl w = (None, w)"
  by (cases ttl) (simp_all add: addTodo_def editTodo_def)

theorem non_string_title_rejected_witness:
  "\<not> is_string JNull
   \<and> addTodo example_platform (ascii ''id-1'') 1000 JNull (fresh_world Map.empty)
       = (None, fresh_world Map.empty)
   \<and> editTodo example_platform (JStr (ascii ''id-1'')) JNull (fresh_world Map.empty)
       = (None, fresh_world Map.empty)"
  using non_string_title_rejected
    [of JNull example_platform "ascii ''id-1''" 1000 "fresh_world Map.empty" "JStr (ascii ''id-1'')"]
  by simp

section \<open>Creating a todo\<close>

text \<open>
  C3. When the trimmed title is non-empty and has at most 500 code units, the title is a
  string, and \<open>addTodo\<close> returns a new state, which is also the state the model then
  holds: the old list with one todo in front, made of the generated id, the title without
  the whitespace at its two ends, \<open>completed = false\<close> and the clock reading; the filter
  is the old one.
\<close>

theorem create_postcondition:
  assumes "trimTitle ttl \<noteq> []" and "length (trimTitle ttl) \<le> 500"
  shows "\<exists>raw before after s.
           ttl = JStr raw
         \<and> raw = before @ trim raw @ after \<and> list_all is_ws before \<and> list_all is_ws after
         \<and> \<not> is_ws (hd (trim raw)) \<and> \<not> is_ws (last (trim raw))
         \<and> addTodo P generatedId now ttl w = (Some s, save P s w)
         \<and> state (save P s w) = s
         \<and> todos s = \<lparr>todo_id = generatedId, title = trim raw, completed = JBool False,
                        createdAt = JFin now, others = []\<rparr> # todos (state w)
         \<and> currentFilter s = currentFilter (state w)"
proof -
  from assms(1) obtain raw where raw: "ttl = JStr raw"
    by (cases ttl) simp_all
  with assms have t: "trim raw \<noteq> []" and l: "length (trim raw) \<le> 500"
    by simp_all
  from trim_split [of raw] obtain before after
    where sp: "raw = before @ trim raw @ after" "list_all is_ws before" "list_all is_ws after"
    by blast
  let ?s = "(state w)\<lparr>todos := \<lparr>todo_id = generatedId, title = trim raw, completed = JBool False,
                        createdAt = JFin now, others = []\<rparr> # todos (state w)\<rparr>"
  have "addTodo P generatedId now ttl w = (Some ?s, save P ?s w)"
    using t l by (simp add: addTodo_def raw Let_def)
  moreover have "state (save P ?s w) = ?s"
    by (rule state_save)
  moreover have "todos ?s = \<lparr>todo_id = generatedId, title = trim raw, completed = JBool False,
                        createdAt = JFin now, others = []\<rparr> # todos (state w)"
    and "currentFilter ?s = currentFilter (state w)"
    by simp_all
  ultimately show ?thesis
    using raw sp trim_ends [OF t] by blast
qed

theorem create_postcondition_witness:
  "trimTitle (JStr (ascii '' Buy milk '')) \<noteq> []
   \<and> length (trimTitle (JStr (ascii '' Buy milk ''))) \<le> 500
   \<and> (\<exists>s. addTodo example_platform (ascii ''id-1'') 1000 (JStr (ascii '' Buy milk '')) example_world
            = (Some s, save example_platform s example_world)
          \<and> state (save example_platform s example_world) = s
          \<and> todos s = [\<lparr>todo_id = ascii ''id-1'', title = ascii ''Buy milk'',
                          completed = JBool False, createdAt = JFin 1000, others = []\<rparr>,
                        example_todo]
          \<and> currentFilter s = filter_all)"
proof -
  have h1: "trimTitle (JStr (ascii '' Buy milk '')) \<noteq> []"
    and h2: "length (trimTitle (JStr (ascii '' Buy milk ''))) \<le> 500"
    by (simp_all add: trim_def ascii_def is_ws_def)
  have e: "trim (ascii '' Buy milk '') = ascii ''Buy milk''"
    by (simp add: trim_def ascii_def is_ws_def)
  from create_postcondition [OF h1 h2, of example_platform "ascii ''id-1''" 1000 example_world]
  obtain raw s where r: "JStr (ascii '' Buy milk '') = JStr raw"
    and a: "addTodo example_platform (ascii ''id-1'') 1000 (JStr (ascii '' Buy milk '')) example_world
              = (Some s, save example_platform s example_world)"
    and b: "state (save example_platform s example_world) = s"
    and c: "todos s = \<lparr>todo_id = ascii ''id-1'', title = trim raw, completed = JBool False,
                        createdAt = JFin 1000, others = []\<rparr> # todos (state example_world)"
    and d: "currentFilter s = currentFilter (state example_world)"
    by blast
  from r have "raw = ascii '' Buy milk ''" by simp
  with c e have "todos s = [\<lparr>todo_id = ascii ''id-1'', title = ascii ''Buy milk'',
                          completed = JBool False, createdAt = JFin 1000, others = []\<rparr>,
                        example_todo]"
    by (simp only: example_world_def world.simps app_state.simps)
  moreover from d have "currentFilter s = filter_all"
    by (simp add: example_world_def)
  ultimately show ?thesis using h1 h2 a b by blast
qed

section \<open>The filtered view\<close>

text \<open>
  C9. For every state, the todos shown under \<open>active\<close> and those shown under
  \<open>completed\<close> together are, with multiplicity, the todos shown under \<open>all\<close> (the
  whole list), and no todo is shown under both.
\<close>

theorem filter_partition:
  "mset (getFilteredTodos (s\<lparr>currentFilter := filter_active\<rparr>))
     + mset (getFilteredTodos (s\<lparr>currentFilter := filter_completed\<rparr>))
     = mset (getFilteredTodos (s\<lparr>currentFilter := filter_all\<rparr>))
   \<and> set (getFilteredTodos (s\<lparr>currentFilter := filter_active\<rparr>))
       \<inter> set (getFilteredTodos (s\<lparr>currentFilter := filter_completed\<rparr>)) = {}
   \<and> getFilteredTodos (s\<lparr>currentFilter := filter_all\<rparr>) = todos s"
  using filters_distinct by (auto simp: getFilteredTodos_def)

section \<open>The validation boundary\<close>

text \<open>
  C4. With a title of exactly 500 code units after trimming, \<open>addTodo\<close> succeeds, and so
  does \<open>editTodo\<close> of an existing todo; with 501 code units both return \<open>null\<close> and
  leave the world as it was, whether or not the id exists.
\<close>

theorem validation_boundary:
  "(length (trim s) = 500 \<longrightarrow>
      fst (addTodo P generatedId now (JStr s) w) \<noteq> None
      \<and> ((\<exists>t\<in>set (todos (state w)). id_is idv t) \<longrightarrow> fst (editTodo P idv (JStr s) w) \<noteq> None))
   \<and> (length (trim s) = 501 \<longrightarrow>
      addTodo P generatedId now (JStr s) w = (None, w) \<and> editTodo P idv (JStr s) w = (None, w))"
  by (auto simp: addTodo_def editTodo_def Let_def findIndex_none)

theorem validation_boundary_witness:
  "length (trim (replicate 500 (0x61::16 word))) = 500
   \<and> (\<exists>t\<in>set (todos (state example_world)). id_is (JStr (ascii ''a'')) t)
   \<and> fst (addTodo example_platform (ascii ''id-1'') 2000 (JStr (replicate 500 0x61)) example_world)
       \<noteq> None
   \<and> fst (editTodo example_platform (JStr (ascii ''a'')) (JStr (replicate 500 0x61)) example_world)
       \<noteq> None
   \<and> length (trim (replicate 501 (0x61::16 word))) = 501
   \<and> addTodo example_platform (ascii ''id-1'') 2000 (JStr (replicate 501 0x61)) example_world
       = (None, example_world)
   \<and> editTodo example_platform (JStr (ascii ''a'')) (JStr (replicate 501 0x61)) example_world
       = (None, example_world)"
proof -
  have a: "length (trim (replicate 500 (0x61::16 word))) = 500"
    and b: "length (trim (replicate 501 (0x61::16 word))) = 501"
    by (simp_all add: trim_replicate is_ws_def)
  have c: "\<exists>t\<in>set (todos (state example_world)). id_is (JStr (ascii ''a'')) t"
    by (simp add: example_world_def example_todo_def id_is_def)
  from validation_boundary
         [of "replicate 500 0x61" example_platform "ascii ''id-1''" 2000 example_world
             "JStr (ascii ''a'')"]
       validation_boundary
         [of "replicate 501 0x61" example_platform "ascii ''id-1''" 2000 example_world
             "JStr (ascii ''a'')"]
       a b c
  show ?thesis by blast
qed

section \<open>Titles in reachable states\<close>








section \<open>Failing writes\<close>

text \<open>
  C7. When a write of \<open>save\<close> throws (the first, or the second after the first went
  through), \<open>model.state\<close> is \<open>newState\<close> all the same; \<open>save\<close> has no exceptional
  result. An operation that returns a state has passed it to \<open>save\<close> and the model holds
  it, and what the operation returns does not depend on which writes throw.
\<close>

theorem persistence_failure_nonfatal:
  "((setItem_throws P (localStorage w) STORAGE_KEY (JSON_stringify P (todos newState))
      \<or> setItem_throws P ((localStorage w)(STORAGE_KEY \<mapsto> JSON_stringify P (todos newState)))
           FILTER_KEY (currentFilter newState))
     \<longrightarrow> state (save P newState w) = newState)
   \<and> (fst (perform P a w) = Some s
     \<longrightarrow> snd (perform P a w) = save P s w \<and> state (snd (perform P a w)) = s)
   \<and> fst (perform (P\<lparr>setItem_throws := q\<rparr>) a w) = fst (perform P a w)"
  by (cases a)
     (auto simp: state_save addTodo_def toggleTodo_def deleteTodo_def editTodo_def setFilter_def
        clearCompleted_def Let_def split: if_splits)

theorem persistence_failure_nonfatal_witness:
  "setItem_throws failing_platform (localStorage example_world) STORAGE_KEY
      (JSON_stringify failing_platform (todos initial_state))
   \<and> state (save failing_platform initial_state example_world) = initial_state
   \<and> fst (perform failing_platform ClearCompleted example_world) = Some (state example_world)
   \<and> snd (perform failing_platform ClearCompleted example_world)
       = save failing_platform (state example_world) example_world
   \<and> state (snd (perform failing_platform ClearCompleted example_world)) = state example_world"
proof -
  have f: "setItem_throws failing_platform (localStorage example_world) STORAGE_KEY
      (JSON_stringify failing_platform (todos initial_state))"
    by (simp add: failing_platform_def)
  have r: "fst (perform failing_platform ClearCompleted example_world) = Some (state example_world)"
    by (simp add: clearCompleted_def example_world_def example_todo_def Let_def)
  from persistence_failure_nonfatal
         [of failing_platform example_world initial_state ClearCompleted "state example_world"] f r
  show ?thesis by blast
qed

section \<open>Toggling twice\<close>

lemma double_toggle_map:
  "map (\<lambda>t. if id_is idv t then t\<lparr>completed := JBool (\<not> truthy (completed t))\<rparr> else t)
     (map (\<lambda>t. if id_is idv t then t\<lparr>completed := JBool (\<not> truthy (completed t))\<rparr> else t) ts)
   = map (\<lambda>t. if id_is idv t then t\<lparr>completed := JBool (truthy (completed t))\<rparr> else t) ts"
  by (induction ts) (simp_all add: id_is_def)

lemma restore_boolean:
  "\<forall>t\<in>set ts. id_is idv t \<longrightarrow> is_boolean (completed t) \<Longrightarrow>
     map (\<lambda>t. if id_is idv t then t\<lparr>completed := JBool (truthy (completed t))\<rparr> else t) ts = ts"
proof (induction ts)
  case Nil
  show ?case by simp
next
  case (Cons t ts)
  have "id_is idv t \<Longrightarrow> t\<lparr>completed := JBool (truthy (completed t))\<rparr> = t"
    using Cons.prems by (cases "completed t") simp_all
  with Cons show ?case by simp
qed

text \<open>
  C8, as the code has it. When a todo with the id exists, both calls of \<open>toggleTodo\<close>
  succeed. Afterwards every todo with another id is as it was, and a todo with the id
  differs at most in \<open>completed\<close>, which is the boolean with the truthiness of the value
  it had. So the state is the original one when that value was a boolean.
\<close>

theorem toggle_twice:
  assumes "\<exists>t\<in>set (todos (state w)). id_is idv t"
  shows "\<exists>s1 s2.
           toggleTodo P idv w = (Some s1, save P s1 w)
         \<and> toggleTodo P idv (save P s1 w) = (Some s2, save P s2 (save P s1 w))
         \<and> todos s2 = map (\<lambda>t. if id_is idv t then t\<lparr>completed := JBool (truthy (completed t))\<rparr> else t)
                        (todos (state w))
         \<and> currentFilter s2 = currentFilter (state w)
         \<and> ((\<forall>t\<in>set (todos (state w)). id_is idv t \<longrightarrow> is_boolean (completed t)) \<longrightarrow> s2 = state w)"
proof -
  let ?f = "\<lambda>t. if id_is idv t then t\<lparr>completed := JBool (\<not> truthy (completed t))\<rparr> else t"
  let ?s1 = "(state w)\<lparr>todos := map ?f (todos (state w))\<rparr>"
  let ?s2 = "?s1\<lparr>todos := map ?f (todos ?s1)\<rparr>"
  have 1: "findIndex (id_is idv) (todos (state w)) \<noteq> - 1"
    using assms by (simp add: findIndex_none)
  from assms obtain t where t: "t \<in> set (todos (state w))" "id_is idv t"
    by blast
  then have "?f t \<in> set (map ?f (todos (state w)))" and "id_is idv (?f t)"
    by (simp_all add: id_is_def)
  then have "\<exists>t\<in>set (map ?f (todos (state w))). id_is idv t"
    by blast
  then have 2: "findIndex (id_is idv) (map ?f (todos (state w))) \<noteq> - 1"
    by (simp only: findIndex_none) blast
  have a: "toggleTodo P idv w = (Some ?s1, save P ?s1 w)"
    using 1 by (simp add: toggleTodo_def Let_def)
  have b: "toggleTodo P idv (save P ?s1 w) = (Some ?s2, save P ?s2 (save P ?s1 w))"
    using 2 by (simp add: toggleTodo_def Let_def state_save)
  have c: "todos ?s2 = map (\<lambda>t. if id_is idv t then t\<lparr>completed := JBool (truthy (completed t))\<rparr> else t)
                        (todos (state w))"
    by (simp add: double_toggle_map del: map_map)
  have d: "currentFilter ?s2 = currentFilter (state w)" by simp
  have e: "(\<forall>t\<in>set (todos (state w)). id_is idv t \<longrightarrow> is_boolean (completed t)) \<longrightarrow> ?s2 = state w"
    by (simp add: double_toggle_map restore_boolean del: map_map)
  from a b c d e show ?thesis by blast
qed

lemma bare_world_eq:
  "bare_world = \<lparr>state = \<lparr>todos = [\<lparr>todo_id = ascii ''a'', title = ascii ''x'', completed = JUndefined,
                                     createdAt = JUndefined, others = []\<rparr>],
                           currentFilter = filter_all\<rparr>,
                  localStorage = Map.empty(STORAGE_KEY \<mapsto> bare_text), setItem_calls = []\<rparr>"
  by (simp add: bare_world_def bare_platform_def load_def load_try_def array_sort_def fresh_world_def
        example_platform_def initial_state_def
        bare_text_def STORAGE_KEY_def FILTER_KEY_def ascii_def bare_json_def
        is_record_def todo_of_def key_id_def key_title_def key_completed_def key_createdAt_def)

text \<open>
  The claim as stated fails on a state that \<open>load\<close> builds from a stored record without
  \<open>completed\<close>: the flag is \<open>undefined\<close> before and \<open>false\<close> after the two calls.
\<close>

theorem toggle_twice_counterexample:
  "map completed (todos (state bare_world)) = [JUndefined]
   \<and> map completed (todos (state
        (snd (toggleTodo bare_platform (JStr (ascii ''a''))
           (snd (toggleTodo bare_platform (JStr (ascii ''a'')) bare_world)))))) = [JBool False]"
  by (simp add: bare_world_eq toggleTodo_def id_is_def Let_def state_save)

theorem toggle_twice_witness:
  "(\<exists>t\<in>set (todos (state example_world)). id_is (JStr (ascii ''a'')) t)
   \<and> todos (state example_world) = [example_todo]
   \<and> is_boolean (completed example_todo)
   \<and> (\<exists>s1 s2.
           toggleTodo example_platform (JStr (ascii ''a'')) example_world
             = (Some s1, save example_platform s1 example_world)
         \<and> toggleTodo example_platform (JStr (ascii ''a'')) (save example_platform s1 example_world)
             = (Some s2, save example_platform s2 (save example_platform s1 example_world))
         \<and> s2 = state example_world)"
proof -
  have h: "\<exists>t\<in>set (todos (state example_world)). id_is (JStr (ascii ''a'')) t"
    by (simp add: example_world_def example_todo_def id_is_def)
  have l: "todos (state example_world) = [example_todo]"
    by (simp add: example_world_def)
  have c: "is_boolean (completed example_todo)"
    by (simp add: example_todo_def)
  from l c
  have b: "\<forall>t\<in>set (todos (state example_world)).
             id_is (JStr (ascii ''a'')) t \<longrightarrow> is_boolean (completed t)"
    by simp
  from toggle_twice [OF h, of example_platform] h l c b show ?thesis
    by blast
qed

section \<open>Loading corrupt data\<close>

text \<open>
  C6, as the code has it. When the stored todos text is not empty and \<open>JSON.parse\<close>
  throws on it, \<open>load\<close> leaves the empty default state, whatever state it started from and
  whatever filter is stored; nothing else of the world changes.
\<close>

theorem corrupt_data_recovery:
  assumes "localStorage w STORAGE_KEY = Some j" and "j \<noteq> []" and "JSON_parse P j = None"
  shows "load P w = w\<lparr>state := initial_state\<rparr>"
  using assms by (simp add: load_def load_try_def initial_state_def)

text \<open>
  The claim as stated fails on the empty string, which \<open>JSON.parse\<close> rejects: \<open>if
  (todosJson)\<close> skips it like a missing value, nothing is thrown, and a valid stored filter
  is adopted.
\<close>

theorem corrupt_data_recovery_counterexample:
  "JSON_parse example_platform [] = None
   \<and> state (load example_platform
        (fresh_world (Map.empty(STORAGE_KEY \<mapsto> [], FILTER_KEY \<mapsto> filter_active))))
       = \<lparr>todos = [], currentFilter = filter_active\<rparr>
   \<and> \<lparr>todos = [], currentFilter = filter_active\<rparr> \<noteq> initial_state"
  by (simp add: example_platform_def load_def load_try_def fresh_world_def initial_state_def
        STORAGE_KEY_def FILTER_KEY_def valid_filters_def filter_active_def filter_all_def ascii_def)

theorem corrupt_data_recovery_witness:
  "localStorage (fresh_world (Map.empty(STORAGE_KEY \<mapsto> ascii ''not valid json{{{'',
                                        FILTER_KEY \<mapsto> filter_completed))) STORAGE_KEY
     = Some (ascii ''not valid json{{{'')
   \<and> ascii ''not valid json{{{'' \<noteq> []
   \<and> JSON_parse example_platform (ascii ''not valid json{{{'') = None
   \<and> load example_platform
        (fresh_world (Map.empty(STORAGE_KEY \<mapsto> ascii ''not valid json{{{'',
                                FILTER_KEY \<mapsto> filter_completed)))
       = (fresh_world (Map.empty(STORAGE_KEY \<mapsto> ascii ''not valid json{{{'',
                                FILTER_KEY \<mapsto> filter_completed)))\<lparr>state := initial_state\<rparr>"
proof -
  have 1: "localStorage (fresh_world (Map.empty(STORAGE_KEY \<mapsto> ascii ''not valid json{{{'',
                                        FILTER_KEY \<mapsto> filter_completed))) STORAGE_KEY
     = Some (ascii ''not valid json{{{'')"
    by (simp add: fresh_world_def STORAGE_KEY_def FILTER_KEY_def ascii_def)
  have 2: "ascii ''not valid json{{{'' \<noteq> []"
    by (simp add: ascii_def)
  have 3: "JSON_parse example_platform (ascii ''not valid json{{{'') = None"
    by (simp add: example_platform_def)
  from corrupt_data_recovery [OF 1 2 3] 1 2 3 show ?thesis
    by blast
qed

section \<open>Loading parseable data\<close>

text \<open>
  C5, as the code has it. Let the stored text parse as an array (so it is not the empty
  string, which \<open>JSON.parse\<close> rejects), and call kept the entries with a string \<open>id\<close>
  and a string \<open>title\<close>.
  When fewer than two entries are kept, or no kept \<open>createdAt\<close> makes the subtraction
  throw, \<open>load\<close> keeps exactly the kept entries, and adopts the stored filter when it is
  one of the three valid values; otherwise the filter stays what it was (\<open>all\<close> at
  start).
  When the comparator reads every kept \<open>createdAt\<close> as a number other than \<open>NaN\<close> (a
  number, an infinity too, a falsy value, \<open>true\<close>, a numeric text), the kept entries are
  in the stable order of that number, descending.
  When two or more entries are kept and a \<open>createdAt\<close> among them makes the subtraction
  throw, \<open>load\<close> leaves the empty default state.
\<close>

theorem hydrate_postcondition:
  assumes "localStorage w STORAGE_KEY = Some j" and "j \<noteq> []"
    and "JSON_parse P j = Some (JArr xs)"
  shows "(length (filter is_record xs) < 2
            \<or> list_all (\<lambda>x. \<not> raises (get_prop x key_createdAt)) (filter is_record xs)
          \<longrightarrow> mset (todos (state (load P w))) = mset (map todo_of (filter is_record xs))
            \<and> currentFilter (state (load P w))
                = (case localStorage w FILTER_KEY of
                     None \<Rightarrow> currentFilter (state w)
                   | Some f \<Rightarrow> if f \<in> set valid_filters then f else currentFilter (state w)))
       \<and> (list_all (\<lambda>x. numeric_createdAt P (get_prop x key_createdAt)) (filter is_record xs)
          \<longrightarrow> todos (state (load P w))
                = sort_key (\<lambda>t. opposite (createdAt_number P t)) (map todo_of (filter is_record xs))
            \<and> sorted_wrt (\<lambda>a b. createdAt_number P b \<le> createdAt_number P a)
                (todos (state (load P w))))
       \<and> (2 \<le> length (filter is_record xs)
            \<and> list_ex (\<lambda>x. raises (get_prop x key_createdAt)) (filter is_record xs)
          \<longrightarrow> state (load P w) = initial_state)"
proof (intro conjI impI)
  let ?ts = "map todo_of (filter is_record xs)"
  let ?key = "\<lambda>t. opposite (createdAt_number P t)"
  note ld = load_of_array [OF assms]
  {
    assume "length (filter is_record xs) < 2
            \<or> list_all (\<lambda>x. \<not> raises (get_prop x key_createdAt)) (filter is_record xs)"
    then have "length ?ts < 2 \<or> (\<forall>t\<in>set ?ts. \<not> raises (createdAt t))"
      by (auto simp: list_all_iff createdAt_todo_of)
    from array_sort_returns [OF this]
    obtain ys where ys: "array_sort (implementation_order P) (by_createdAt P) ?ts = Some ys"
      and m: "mset ys = mset ?ts"
      by blast
    from ld(2) [OF ys] m
    show "mset (todos (state (load P w))) = mset ?ts"
      and "currentFilter (state (load P w))
             = (case localStorage w FILTER_KEY of
                  None \<Rightarrow> currentFilter (state w)
                | Some f \<Rightarrow> if f \<in> set valid_filters then f else currentFilter (state w))"
      by simp_all
  }
  {
    assume "list_all (\<lambda>x. numeric_createdAt P (get_prop x key_createdAt)) (filter is_record xs)"
    then have "\<forall>t\<in>set ?ts. numeric_createdAt P (createdAt t)"
      by (auto simp: list_all_iff createdAt_todo_of)
    then have "array_sort (implementation_order P) (by_createdAt P) ?ts = Some (sort_key ?key ?ts)"
      by (rule array_sort_plain)
    from ld(2) [OF this]
    show 1: "todos (state (load P w)) = sort_key ?key ?ts"
      by simp
    have "sorted (map ?key (sort_key ?key ?ts))"
      by (rule sorted_sort_key)
    then show "sorted_wrt (\<lambda>a b. createdAt_number P b \<le> createdAt_number P a)
                (todos (state (load P w)))"
      by (simp add: 1 sorted_map opposite_le)
  }
  {
    assume "2 \<le> length (filter is_record xs)
            \<and> list_ex (\<lambda>x. raises (get_prop x key_createdAt)) (filter is_record xs)"
    then have "2 \<le> length ?ts" and "\<exists>t\<in>set ?ts. raises (createdAt t)"
      by (auto simp: list_ex_iff createdAt_todo_of)
    then have "array_sort (implementation_order P) (by_createdAt P) ?ts = None"
      by (rule array_sort_throws)
    then show "state (load P w) = initial_state"
      by (rule ld(1))
  }
qed

lemma dated_kept:
  "filter is_record dated_records = dated_records"
  "length dated_records = 2"
  "list_all (\<lambda>x. \<not> raises (get_prop x key_createdAt)) dated_records"
  by (simp_all add: dated_records_def is_record_def key_id_def key_title_def key_createdAt_def
        ascii_def)

lemma infinite_survivors:
  "map todo_of (filter is_record infinite_records) =
     [\<lparr>todo_id = ascii ''a'', title = ascii ''x'', completed = JUndefined,
        createdAt = JFin 5, others = []\<rparr>,
      \<lparr>todo_id = ascii ''b'', title = ascii ''y'', completed = JUndefined,
        createdAt = JNum (Num PlusInfinity), others = []\<rparr>,
      \<lparr>todo_id = ascii ''c'', title = ascii ''z'', completed = JUndefined,
        createdAt = JNum (Num PlusInfinity), others = []\<rparr>]"
  by (simp add: infinite_records_def is_record_def todo_of_def key_id_def key_title_def
        key_completed_def key_createdAt_def ascii_def)

lemma object_date_kept:
  "filter is_record object_date_records = object_date_records"
  "length object_date_records = 2"
  "list_ex (\<lambda>x. raises (get_prop x key_createdAt)) object_date_records"
  by (simp_all add: object_date_records_def is_record_def key_id_def key_title_def
        key_createdAt_def key_toString_def ascii_def)

theorem hydrate_postcondition_witness:
  "localStorage seeded_world STORAGE_KEY = Some seeded_text
   \<and> seeded_text \<noteq> []
   \<and> JSON_parse seeded_platform seeded_text = Some (JArr seeded_records)
   \<and> list_all (\<lambda>x. numeric_createdAt seeded_platform (get_prop x key_createdAt))
        (filter is_record seeded_records)
   \<and> length (filter is_record seeded_records) = 3
   \<and> map title (todos (state (load seeded_platform seeded_world)))
       = [ascii ''New'', ascii ''Mid'', ascii ''Old'']
   \<and> map createdAt (todos (state (load seeded_platform seeded_world)))
       = [JFin 2000, JFin 1500, JFin 1000]
   \<and> currentFilter (state (load seeded_platform seeded_world)) = filter_completed
   \<and> list_all (\<lambda>x. numeric_createdAt infinite_platform (get_prop x key_createdAt))
        (filter is_record infinite_records)
   \<and> map todo_id (todos (state (load infinite_platform
                                   (fresh_world (Map.empty(STORAGE_KEY \<mapsto> infinite_text))))))
       = [ascii ''b'', ascii ''c'', ascii ''a'']
   \<and> list_all (\<lambda>x. \<not> raises (get_prop x key_createdAt)) (filter is_record dated_records)
   \<and> mset (todos (state (load dated_platform
                            (fresh_world (Map.empty(STORAGE_KEY \<mapsto> dated_text))))))
       = mset (map todo_of dated_records)
   \<and> 2 \<le> length (filter is_record object_date_records)
   \<and> list_ex (\<lambda>x. raises (get_prop x key_createdAt)) (filter is_record object_date_records)
   \<and> state (load object_date_platform
               (fresh_world (Map.empty(STORAGE_KEY \<mapsto> object_date_text)))) = initial_state"
proof -
  have s: "list_all (\<lambda>x. numeric_createdAt seeded_platform (get_prop x key_createdAt))
             (filter is_record seeded_records)"
    and sl: "length (filter is_record seeded_records) = 3"
    by (simp_all add: seeded_records_def is_record_def numeric_createdAt_def or_zero_def key_id_def
          key_title_def key_completed_def key_createdAt_def ascii_def)
  have sr: "list_all (\<lambda>x. \<not> raises (get_prop x key_createdAt))
              (filter is_record seeded_records)"
    by (simp add: seeded_records_def is_record_def key_id_def
          key_title_def key_completed_def key_createdAt_def ascii_def)
  from hydrate_postcondition [OF seeded_stored(1,3,4)] s sr
  have "todos (state (load seeded_platform seeded_world))
          = sort_key (\<lambda>t. opposite (createdAt_number seeded_platform t))
              (map todo_of (filter is_record seeded_records))"
    and "currentFilter (state (load seeded_platform seeded_world))
          = (case localStorage seeded_world FILTER_KEY of
               None \<Rightarrow> currentFilter (state seeded_world)
             | Some f \<Rightarrow> if f \<in> set valid_filters then f else currentFilter (state seeded_world))"
    by blast+
  then have s1: "map title (todos (state (load seeded_platform seeded_world)))
       = [ascii ''New'', ascii ''Mid'', ascii ''Old'']"
    and s2: "map createdAt (todos (state (load seeded_platform seeded_world)))
       = [JFin 2000, JFin 1500, JFin 1000]"
    and s3: "currentFilter (state (load seeded_platform seeded_world)) = filter_completed"
    by (simp_all add: seeded_survivors createdAt_number_def or_zero_def seeded_stored(2)
          valid_filters_def)
  have i1: "localStorage (fresh_world (Map.empty(STORAGE_KEY \<mapsto> infinite_text))) STORAGE_KEY
              = Some infinite_text"
    and i2: "infinite_text \<noteq> []"
    and i3: "JSON_parse infinite_platform infinite_text = Some (JArr infinite_records)"
    by (simp_all add: fresh_world_def infinite_platform_def infinite_text_def ascii_def)
  have i: "list_all (\<lambda>x. numeric_createdAt infinite_platform (get_prop x key_createdAt))
             (filter is_record infinite_records)"
    by (simp add: infinite_records_def is_record_def numeric_createdAt_def or_zero_def key_id_def
          key_title_def key_completed_def key_createdAt_def ascii_def)
  from hydrate_postcondition [OF i1 i2 i3] i
  have "todos (state (load infinite_platform
                        (fresh_world (Map.empty(STORAGE_KEY \<mapsto> infinite_text)))))
          = sort_key (\<lambda>t. opposite (createdAt_number infinite_platform t))
              (map todo_of (filter is_record infinite_records))"
    by simp
  then have i4: "map todo_id (todos (state (load infinite_platform
                                   (fresh_world (Map.empty(STORAGE_KEY \<mapsto> infinite_text))))))
       = [ascii ''b'', ascii ''c'', ascii ''a'']"
    by (simp add: infinite_survivors createdAt_number_def or_zero_def)
  have d1: "localStorage (fresh_world (Map.empty(STORAGE_KEY \<mapsto> dated_text))) STORAGE_KEY
              = Some dated_text"
    and d2: "dated_text \<noteq> []"
    and d3: "JSON_parse dated_platform dated_text = Some (JArr dated_records)"
    by (simp_all add: fresh_world_def dated_platform_def dated_text_def ascii_def)
  have d: "list_all (\<lambda>x. \<not> raises (get_prop x key_createdAt)) (filter is_record dated_records)"
    by (simp add: dated_kept)
  from hydrate_postcondition [OF d1 d2 d3] d
  have d4: "mset (todos (state (load dated_platform
                            (fresh_world (Map.empty(STORAGE_KEY \<mapsto> dated_text))))))
       = mset (map todo_of dated_records)"
    by (simp add: dated_kept(1))
  have o1: "localStorage (fresh_world (Map.empty(STORAGE_KEY \<mapsto> object_date_text))) STORAGE_KEY
              = Some object_date_text"
    and o2: "object_date_text \<noteq> []"
    and o3: "JSON_parse object_date_platform object_date_text = Some (JArr object_date_records)"
    by (simp_all add: fresh_world_def object_date_platform_def object_date_text_def ascii_def)
  have o: "2 \<le> length (filter is_record object_date_records)"
    and o': "list_ex (\<lambda>x. raises (get_prop x key_createdAt)) (filter is_record object_date_records)"
    by (simp_all add: object_date_kept)
  from hydrate_postcondition [OF o1 o2 o3] o o'
  have o4: "state (load object_date_platform
               (fresh_world (Map.empty(STORAGE_KEY \<mapsto> object_date_text)))) = initial_state"
    by blast
  from seeded_stored(1,3,4) s sl s1 s2 s3 i i4 d d4 o o' o4 show ?thesis
    by blast
qed

text \<open>
  The claim as stated fails when a kept record has an object with a \<open>toString\<close> property
  as \<open>createdAt\<close>: both records have a string \<open>id\<close> and a string \<open>title\<close>, the
  subtraction in the comparator throws, and the \<open>catch\<close> block leaves no todo at all.
\<close>

theorem hydrate_postcondition_counterexample:
  "JSON_parse object_date_platform object_date_text = Some (JArr object_date_records)
   \<and> filter is_record object_date_records = object_date_records
   \<and> todos (state (load object_date_platform
                     (fresh_world (Map.empty(STORAGE_KEY \<mapsto> object_date_text))))) = []"
proof -
  have 1: "localStorage (fresh_world (Map.empty(STORAGE_KEY \<mapsto> object_date_text))) STORAGE_KEY
              = Some object_date_text"
    and 2: "object_date_text \<noteq> []"
    and 3: "JSON_parse object_date_platform object_date_text = Some (JArr object_date_records)"
    by (simp_all add: fresh_world_def object_date_platform_def object_date_text_def ascii_def)
  have "2 \<le> length (map todo_of (filter is_record object_date_records))"
    and "\<exists>t\<in>set (map todo_of (filter is_record object_date_records)). raises (createdAt t)"
    using object_date_kept by (simp_all add: list_ex_iff createdAt_todo_of)
  then have "array_sort (implementation_order object_date_platform)
               (by_createdAt object_date_platform)
               (map todo_of (filter is_record object_date_records)) = None"
    by (rule array_sort_throws)
  from load_of_array(1) [OF 1 2 3 this]
  have "todos (state (load object_date_platform
                     (fresh_world (Map.empty(STORAGE_KEY \<mapsto> object_date_text))))) = []"
    by (simp add: initial_state_def)
  with 3 object_date_kept(1) show ?thesis by blast
qed

end
